theory Spec2Isabelle
  imports Complex_Main
begin

section \<open>Python values that the script handles\<close>

text \<open>
  The script \<^verbatim>\<open>scripts/whisper_transcribe.py\<close> has two functions,
  \<^verbatim>\<open>transcribe_audio\<close> and \<^verbatim>\<open>main\<close>. Both only build dictionaries, call three
  external operations (\<^verbatim>\<open>os.path.exists\<close>, \<^verbatim>\<open>whisper.load_model\<close> and the
  \<^verbatim>\<open>transcribe\<close> method of the loaded model), print and exit.

  A Python \<^verbatim>\<open>str\<close> is a \<open>string\<close>; a \<open>char\<close> stands for the code point of the same
  number, so the strings of the model are the Python strings over the code points
  below 256. A number is a Python \<^verbatim>\<open>int\<close> or a finite \<^verbatim>\<open>float\<close>; a finite float is
  the rational number it denotes (the script never computes with a timestamp, it only
  copies it, and Python compares \<^verbatim>\<open>int\<close> and \<^verbatim>\<open>float\<close> by value).
\<close>

datatype pynum = PyInt int | PyFloat rat

fun num_value :: "pynum \<Rightarrow> rat" where
  "num_value (PyInt i) = of_int i"
| "num_value (PyFloat q) = q"

text \<open>
  The values that reach \<^verbatim>\<open>json.dumps\<close>. A \<^verbatim>\<open>dict\<close> keeps its keys in insertion
  order, so it is an association list.
\<close>

datatype json =
    JNull
  | JBool bool
  | JNum pynum
  | JStr string
  | JArr "json list"
  | JObj "(string \<times> json) list"

type_synonym pydict = "(string \<times> json) list"

text \<open>Truthiness, as \<^verbatim>\<open>if x:\<close> and \<^verbatim>\<open>a if x else b\<close> test it.\<close>

fun truthy :: "json \<Rightarrow> bool" where
  "truthy JNull = False"
| "truthy (JBool b) = b"
| "truthy (JNum n) = (num_value n \<noteq> 0)"
| "truthy (JStr s) = (s \<noteq> [])"
| "truthy (JArr xs) = (xs \<noteq> [])"
| "truthy (JObj kvs) = (kvs \<noteq> [])"

text \<open>
  \<^verbatim>\<open>str.isspace\<close> on the code points below 256: tab, line feed, vertical tab, form
  feed, carriage return, the four separators \<^verbatim>\<open>0x1c\<close> to \<^verbatim>\<open>0x1f\<close>, space,
  \<^verbatim>\<open>0x85\<close> and the no-break space \<^verbatim>\<open>0xa0\<close>.
\<close>

definition py_isspace :: "char \<Rightarrow> bool" where
  "py_isspace c = ((of_char c :: nat) \<in> {9, 10, 11, 12, 13, 28, 29, 30, 31, 32, 133, 160})"

text \<open>\<^verbatim>\<open>s.strip()\<close>: drop the leading and the trailing whitespace.\<close>

definition py_strip :: "string \<Rightarrow> string" where
  "py_strip s = rev (dropWhile py_isspace (rev (dropWhile py_isspace s)))"

text \<open>
  The words of the specification, "whitespace-trimmed": \<open>t\<close> is \<open>s\<close> without a run of
  whitespace at its start and one at its end, and \<open>t\<close> itself neither starts nor ends
  with whitespace.
\<close>

definition trimmed_spec :: "string \<Rightarrow> string \<Rightarrow> bool" where
  "trimmed_spec s t =
     (\<exists>l r. s = l @ t @ r \<and> list_all py_isspace l \<and> list_all py_isspace r \<and>
            (t = [] \<or> (\<not> py_isspace (hd t) \<and> \<not> py_isspace (last t))))"

section \<open>The external collaborators\<close>

text \<open>
  An exception is what the handler \<^verbatim>\<open>except Exception as e\<close> looks at: its class
  name, \<^verbatim>\<open>str(e)\<close>, and whether it is an instance of \<^verbatim>\<open>Exception\<close>. Every
  exception is a \<^verbatim>\<open>BaseException\<close>; \<^verbatim>\<open>KeyboardInterrupt\<close>, \<^verbatim>\<open>SystemExit\<close> and
  \<^verbatim>\<open>GeneratorExit\<close> are not instances of \<^verbatim>\<open>Exception\<close>, and a library may define
  more such classes.
\<close>

record py_exception =
  exc_class :: string
  exc_str :: string
  exc_is_exception :: bool

text \<open>
  What \<^verbatim>\<open>model_instance.transcribe\<close> returns: a dictionary that may hold the keys
  \<^verbatim>\<open>"text"\<close>, \<^verbatim>\<open>"language"\<close> and \<^verbatim>\<open>"segments"\<close>, each segment a dictionary that
  may hold \<^verbatim>\<open>"start"\<close>, \<^verbatim>\<open>"end"\<close> and \<^verbatim>\<open>"text"\<close>. A key that is absent is
  \<open>None\<close>: the script itself asks whether a key is there (\<^verbatim>\<open>in\<close>, \<^verbatim>\<open>.get\<close> with a
  default), so absence is part of the model. The values have the types the engine
  documents (strings and numbers).
\<close>

record engine_segment =
  seg_start :: "pynum option"
  seg_end :: "pynum option"
  seg_text :: "string option"

record engine_result =
  res_text :: "string option"
  res_language :: "string option"
  res_segments :: "engine_segment list option"

text \<open>
  The environment of a run: the file system as \<^verbatim>\<open>os.path.exists\<close> answers, the
  engine, and the encoding of standard output. \<open>'m\<close> is the type of loaded models.
  An engine call returns or raises; an interrupt that arrives during the call is an
  exception that the call raises, and these two calls are where a run spends its
  time: the model has no interrupt at another moment. The engine writes nothing to
  standard output
  (its progress and warnings go to standard error). \<open>stdout_encodes\<close> says which
  characters beyond ASCII the encoding of standard output has; a character that it
  lacks stands for any code point that \<^verbatim>\<open>print\<close> cannot encode, such as an accented
  letter on an ASCII terminal or the lone surrogate that an undecodable byte of a
  command-line argument becomes.
\<close>

record 'm env =
  path_exists :: "string \<Rightarrow> bool"
  load_model :: "string \<Rightarrow> py_exception + 'm"
  transcribe :: "'m \<Rightarrow> string \<Rightarrow> (string \<times> string) list \<Rightarrow> py_exception + engine_result"
  stdout_encodes :: "char \<Rightarrow> bool"

text \<open>An engine all of whose exceptions are instances of \<^verbatim>\<open>Exception\<close>.\<close>

definition raises_only_Exception :: "'m env \<Rightarrow> bool" where
  "raises_only_Exception env =
     ((\<forall>m e. load_model env m = Inl e \<longrightarrow> exc_is_exception e)
      \<and> (\<forall>inst p opts e. transcribe env inst p opts = Inl e \<longrightarrow> exc_is_exception e))"

text \<open>The calls a run makes to its environment, in order, with their arguments.\<close>

datatype event =
    PathExists string
  | LoadModel string
  | Transcribe string "(string \<times> string) list"

section \<open>\<^verbatim>\<open>transcribe_audio\<close>\<close>

text \<open>\<^verbatim>\<open>d[k] = v\<close> on a dictionary: replace the value in place, or append the key.\<close>

fun dict_set :: "('k \<times> 'v) list \<Rightarrow> 'k \<Rightarrow> 'v \<Rightarrow> ('k \<times> 'v) list" where
  "dict_set [] k v = [(k, v)]"
| "dict_set ((k', v') # kvs) k v =
     (if k' = k then (k, v) # kvs else (k', v') # dict_set kvs k v)"

text \<open>
  Lines 38 to 40:
  \<^verbatim>\<open>
  options = {}
  if language:
      options["language"] = language
  \<close>
  \<^verbatim>\<open>language\<close> is \<^verbatim>\<open>None\<close> or a string; \<^verbatim>\<open>None\<close> and the empty string are falsy.
\<close>

definition language_truthy :: "string option \<Rightarrow> bool" where
  "language_truthy language = (case language of None \<Rightarrow> False | Some l \<Rightarrow> l \<noteq> [])"

definition build_options :: "string option \<Rightarrow> (string \<times> string) list" where
  "build_options language =
     (case language of
        None \<Rightarrow> []
      | Some l \<Rightarrow> if language_truthy language then dict_set [] ''language'' l else [])"

text \<open>
  Lines 47 to 52, the body of the loop: one output segment from one segment of the
  engine, \<^verbatim>\<open>segment.get("start", 0)\<close>, \<^verbatim>\<open>segment.get("end", 0)\<close> and
  \<^verbatim>\<open>segment.get("text", "").strip()\<close>.
\<close>

definition get_start :: "engine_segment \<Rightarrow> pynum" where
  "get_start segment = (case seg_start segment of None \<Rightarrow> PyInt 0 | Some v \<Rightarrow> v)"

definition get_end :: "engine_segment \<Rightarrow> pynum" where
  "get_end segment = (case seg_end segment of None \<Rightarrow> PyInt 0 | Some v \<Rightarrow> v)"

definition get_text :: "engine_segment \<Rightarrow> string" where
  "get_text segment = (case seg_text segment of None \<Rightarrow> [] | Some t \<Rightarrow> t)"

definition segment_dict :: "engine_segment \<Rightarrow> json" where
  "segment_dict segment =
     JObj [(''start'', JNum (get_start segment)),
           (''end'', JNum (get_end segment)),
           (''text'', JStr (py_strip (get_text segment)))]"

text \<open>The loop \<^verbatim>\<open>for segment in result["segments"]: segments.append(...)\<close>.\<close>

fun append_segments :: "json list \<Rightarrow> engine_segment list \<Rightarrow> json list" where
  "append_segments segments [] = segments"
| "append_segments segments (segment # rest) =
     append_segments (segments @ [segment_dict segment]) rest"

text \<open>Lines 45 to 52: the loop runs only if the key \<^verbatim>\<open>"segments"\<close> is in the result.\<close>

definition extract_segments :: "engine_result \<Rightarrow> json list" where
  "extract_segments result =
     (case res_segments result of
        None \<Rightarrow> []
      | Some segs \<Rightarrow> append_segments [] segs)"

text \<open>\<^verbatim>\<open>result["text"]\<close> on a result without that key raises \<^verbatim>\<open>KeyError('text')\<close>,
  whose \<^verbatim>\<open>str\<close> is the \<^verbatim>\<open>repr\<close> of the key.\<close>

definition key_error_text :: py_exception where
  "key_error_text =
     \<lparr>exc_class = ''KeyError'', exc_str = CHR 0x27 # ''text'' @ [CHR 0x27],
      exc_is_exception = True\<rparr>"

text \<open>Lines 54 to 60: the dictionary of a success.\<close>

definition success_dict :: "engine_result \<Rightarrow> string \<Rightarrow> json list \<Rightarrow> string \<Rightarrow> pydict" where
  "success_dict result text segments model =
     [(''success'', JBool True),
      (''text'', JStr (py_strip text)),
      (''language'', JStr (case res_language result of None \<Rightarrow> ''unknown'' | Some l \<Rightarrow> l)),
      (''segments'', JArr segments),
      (''model_used'', JStr model)]"

text \<open>
  Lines 27 to 60, the body of the \<^verbatim>\<open>try\<close>: it returns a dictionary or raises, and
  in both cases it has made some calls to the environment.
\<close>

definition transcribe_audio_try ::
  "'m env \<Rightarrow> string \<Rightarrow> string \<Rightarrow> string option \<Rightarrow> event list \<times> (py_exception + pydict)" where
  "transcribe_audio_try env audio_path model language =
     (if \<not> path_exists env audio_path then
        ([PathExists audio_path],
         Inr [(''success'', JBool False),
              (''error'', JStr (''Audio file not found: '' @ audio_path))])
      else
        case load_model env model of
          Inl e \<Rightarrow> ([PathExists audio_path, LoadModel model], Inl e)
        | Inr model_instance \<Rightarrow>
            let options = build_options language;
                calls = [PathExists audio_path, LoadModel model, Transcribe audio_path options]
            in case transcribe env model_instance audio_path options of
                 Inl e \<Rightarrow> (calls, Inl e)
               | Inr result \<Rightarrow>
                   let segments = extract_segments result
                   in case res_text result of
                        None \<Rightarrow> (calls, Inl key_error_text)
                      | Some text \<Rightarrow> (calls, Inr (success_dict result text segments model)))"

text \<open>
  Lines 62 to 66, the handler \<^verbatim>\<open>except Exception as e\<close>: an instance of
  \<^verbatim>\<open>Exception\<close> is caught and becomes the failure dictionary; any other exception
  is not caught and leaves the function.
\<close>

definition except_Exception :: "py_exception \<Rightarrow> py_exception + pydict" where
  "except_Exception e =
     (if exc_is_exception e then
        Inr [(''success'', JBool False),
             (''error'', JStr (''Transcription failed: '' @ exc_str e))]
      else Inl e)"

text \<open>The function returns a dictionary (\<open>Inr\<close>) or lets an exception out (\<open>Inl\<close>).\<close>

definition transcribe_audio ::
  "'m env \<Rightarrow> string \<Rightarrow> string \<Rightarrow> string option \<Rightarrow> event list \<times> (py_exception + pydict)" where
  "transcribe_audio env audio_path model language =
     (case transcribe_audio_try env audio_path model language of
        (calls, Inr result) \<Rightarrow> (calls, Inr result)
      | (calls, Inl e) \<Rightarrow> (calls, except_Exception e))"

section \<open>\<^verbatim>\<open>main\<close>\<close>

text \<open>
  One \<^verbatim>\<open>print(json.dumps(obj, ...))\<close> that went through: the document and the two
  formatting arguments of \<^verbatim>\<open>json.dumps\<close>, \<^verbatim>\<open>indent\<close> (default \<^verbatim>\<open>None\<close>, a single
  line) and \<^verbatim>\<open>ensure_ascii\<close> (default \<^verbatim>\<open>True\<close>).
\<close>

record printed =
  dump_doc :: json
  dump_indent :: "nat option"
  dump_ensure_ascii :: bool

text \<open>
  The strings of a document, keys and values: with \<^verbatim>\<open>ensure_ascii=False\<close> their
  characters beyond ASCII are written as they are.
\<close>

fun json_strings :: "json \<Rightarrow> string list" where
  "json_strings JNull = []"
| "json_strings (JBool b) = []"
| "json_strings (JNum n) = []"
| "json_strings (JStr s) = [s]"
| "json_strings (JArr xs) = concat (map json_strings xs)"
| "json_strings (JObj kvs) = concat (map (\<lambda>kv. fst kv # json_strings (snd kv)) kvs)"

definition encodable :: "'m env \<Rightarrow> char \<Rightarrow> bool" where
  "encodable env c = ((of_char c :: nat) < 128 \<or> stdout_encodes env c)"

text \<open>
  Standard output accepts a document when it can encode every character of its
  strings.

  \<^verbatim>\<open>print(json.dumps(obj, indent=..., ensure_ascii=...))\<close>: every value of type
  \<open>json\<close> can be serialized; with \<^verbatim>\<open>ensure_ascii=True\<close> the text is ASCII and
  \<^verbatim>\<open>print\<close> writes it; with \<^verbatim>\<open>ensure_ascii=False\<close> \<^verbatim>\<open>print\<close> writes it if standard
  output accepts the document, and raises
  \<^verbatim>\<open>UnicodeEncodeError\<close> otherwise (\<open>None\<close>), having written nothing.
\<close>

definition stdout_accepts :: "'m env \<Rightarrow> json \<Rightarrow> bool" where
  "stdout_accepts env obj = list_all (list_all (encodable env)) (json_strings obj)"

definition print_json_dumps :: "'m env \<Rightarrow> json \<Rightarrow> nat option \<Rightarrow> bool \<Rightarrow> printed option" where
  "print_json_dumps env obj indent ensure_ascii =
     (if ensure_ascii \<or> stdout_accepts env obj then
        Some \<lparr>dump_doc = obj, dump_indent = indent, dump_ensure_ascii = ensure_ascii\<rparr>
      else None)"

text \<open>
  How the process ends: \<^verbatim>\<open>sys.exit(n)\<close>; an exception that came out of
  \<^verbatim>\<open>transcribe_audio\<close> or of a dictionary lookup and that nobody caught; or the
  \<^verbatim>\<open>UnicodeEncodeError\<close> of \<^verbatim>\<open>print\<close>, which nobody catches either.
\<close>

datatype exit_status = Exit int | Uncaught py_exception | UncaughtEncodeError

text \<open>
  The exit code of the process. An uncaught instance of \<^verbatim>\<open>Exception\<close> ends the
  interpreter with code 1. For another uncaught exception the script does not decide:
  \<^verbatim>\<open>SystemExit\<close> carries its own code, \<^verbatim>\<open>KeyboardInterrupt\<close> ends the process by the
  signal.
\<close>

fun exit_code :: "exit_status \<Rightarrow> int option" where
  "exit_code (Exit n) = Some n"
| "exit_code (Uncaught e) = (if exc_is_exception e then Some 1 else None)"
| "exit_code UncaughtEncodeError = Some 1"

record run =
  run_stdout :: "printed list"
  run_calls :: "event list"
  run_status :: exit_status

definition usage_message :: string where
  "usage_message = ''Usage: python whisper_transcribe.py <audio_file> [model] [language]''"

definition key_error_success :: py_exception where
  "key_error_success =
     \<lparr>exc_class = ''KeyError'', exc_str = CHR 0x27 # ''success'' @ [CHR 0x27],
      exc_is_exception = True\<rparr>"

text \<open>
  Lines 84 to 88, once \<^verbatim>\<open>transcribe_audio\<close> has returned \<open>result\<close>: print it, then
  \<^verbatim>\<open>sys.exit(0 if result["success"] else 1)\<close>. Neither line is inside a \<^verbatim>\<open>try\<close>.
\<close>

definition print_and_exit :: "'m env \<Rightarrow> event list \<Rightarrow> pydict \<Rightarrow> run" where
  "print_and_exit env calls result =
     (case print_json_dumps env (JObj result) (Some 2) False of
        None \<Rightarrow> \<lparr>run_stdout = [], run_calls = calls, run_status = UncaughtEncodeError\<rparr>
      | Some doc \<Rightarrow>
          \<lparr>run_stdout = [doc],
           run_calls = calls,
           run_status =
             (case map_of result ''success'' of
                None \<Rightarrow> Uncaught key_error_success
              | Some v \<Rightarrow> Exit (if truthy v then 0 else 1))\<rparr>)"

text \<open>
  Lines 70 to 88. \<open>argv\<close> is \<^verbatim>\<open>sys.argv\<close>, the script's name first. \<^verbatim>\<open>sys.exit(1)\<close>
  on line 75 ends the run there. An exception that leaves \<^verbatim>\<open>transcribe_audio\<close> on
  line 82 leaves \<^verbatim>\<open>main\<close> too, before anything is printed.
\<close>

definition main :: "'m env \<Rightarrow> string list \<Rightarrow> run" where
  "main env argv =
     (if length argv < 2 then
        (case print_json_dumps env
                (JObj [(''success'', JBool False), (''error'', JStr usage_message)]) None True of
           None \<Rightarrow> \<lparr>run_stdout = [], run_calls = [], run_status = UncaughtEncodeError\<rparr>
         | Some doc \<Rightarrow> \<lparr>run_stdout = [doc], run_calls = [], run_status = Exit 1\<rparr>)
      else
        let audio_path = argv ! 1;
            model = (if length argv > 2 then argv ! 2 else ''tiny'');
            language = (if length argv > 3 then Some (argv ! 3) else None);
            (calls, outcome) = transcribe_audio env audio_path model language
        in case outcome of
             Inl e \<Rightarrow> \<lparr>run_stdout = [], run_calls = calls, run_status = Uncaught e\<rparr>
           | Inr result \<Rightarrow> print_and_exit env calls result)"

section \<open>Reading the output\<close>

text \<open>The value under a key of a printed JSON object.\<close>

definition json_field :: "string \<Rightarrow> json \<Rightarrow> json option" where
  "json_field k j = (case j of JObj kvs \<Rightarrow> map_of kvs k | _ \<Rightarrow> None)"

text \<open>The model selectors that a run handed to \<^verbatim>\<open>whisper.load_model\<close>.\<close>

fun loaded_models :: "event list \<Rightarrow> string list" where
  "loaded_models [] = []"
| "loaded_models (LoadModel m # evs) = m # loaded_models evs"
| "loaded_models (_ # evs) = loaded_models evs"

text \<open>The option dictionaries that a run handed to \<^verbatim>\<open>transcribe\<close>.\<close>

fun transcribe_options :: "event list \<Rightarrow> (string \<times> string) list list" where
  "transcribe_options [] = []"
| "transcribe_options (Transcribe p opts # evs) = opts # transcribe_options evs"
| "transcribe_options (_ # evs) = transcribe_options evs"

text \<open>The segments of an engine result, none when the key is absent.\<close>

definition engine_segments :: "engine_result \<Rightarrow> engine_segment list" where
  "engine_segments result = (case res_segments result of None \<Rightarrow> [] | Some segs \<Rightarrow> segs)"

text \<open>
  The words of the specification on timing: every segment has \<open>start \<le> end\<close>, both
  non-negative, and the segments are ordered non-decreasingly by \<open>start\<close>. The
  property is about the list of (start, end) pairs.
\<close>

definition times_ok :: "(rat \<times> rat) list \<Rightarrow> bool" where
  "times_ok ts = (list_all (\<lambda>(s, e). 0 \<le> s \<and> s \<le> e) ts \<and> sorted (map fst ts))"

text \<open>The pairs as the engine gave them, an absent time read as the script reads it.\<close>

definition engine_times :: "engine_segment list \<Rightarrow> (rat \<times> rat) list" where
  "engine_times segs = map (\<lambda>g. (num_value (get_start g), num_value (get_end g))) segs"

text \<open>The pairs read back from the \<^verbatim>\<open>segments\<close> list of the output.\<close>

definition json_times :: "json \<Rightarrow> (rat \<times> rat) option" where
  "json_times j =
     (case json_field ''start'' j of
        Some (JNum s) \<Rightarrow>
          (case json_field ''end'' j of
             Some (JNum e) \<Rightarrow> Some (num_value s, num_value e)
           | _ \<Rightarrow> None)
      | _ \<Rightarrow> None)"

definition output_times :: "json list \<Rightarrow> (rat \<times> rat) list option" where
  "output_times js = those (map json_times js)"

definition output_times_ok :: "json list \<Rightarrow> bool" where
  "output_times_ok js = (case output_times js of None \<Rightarrow> False | Some ts \<Rightarrow> times_ok ts)"

section \<open>Concrete environments\<close>

text \<open>
  A file system with two audio files, an engine that knows the five model sizes, and
  a standard output that encodes every character. A loaded model is its selector.
  \<^verbatim>\<open>noise.wav\<close> cannot be decoded; any other file is transcribed to two segments.
\<close>

definition model_not_found :: py_exception where
  "model_not_found =
     \<lparr>exc_class = ''RuntimeError'', exc_str = ''Model not found'', exc_is_exception = True\<rparr>"

definition audio_unreadable :: py_exception where
  "audio_unreadable =
     \<lparr>exc_class = ''ValueError'', exc_str = ''Failed to load audio'', exc_is_exception = True\<rparr>"

definition two_segments :: "engine_segment list" where
  "two_segments =
     [\<lparr>seg_start = Some (PyFloat 0), seg_end = Some (PyFloat (3 / 2)),
       seg_text = Some '' Bonjour.''\<rparr>,
      \<lparr>seg_start = Some (PyFloat (3 / 2)), seg_end = Some (PyFloat (9 / 4)),
       seg_text = Some '' Merci. ''\<rparr>]"

definition env_demo :: "string env" where
  "env_demo =
     \<lparr>path_exists = (\<lambda>p. p = ''a.wav'' \<or> p = ''noise.wav''),
      load_model = (\<lambda>m. if m \<in> set [''tiny'', ''base'', ''small'', ''medium'', ''large'']
                         then Inr m else Inl model_not_found),
      transcribe = (\<lambda>m p opts.
         if p = ''noise.wav'' then Inl audio_unreadable
         else Inr \<lparr>res_text = Some '' Bonjour. Merci. '',
                   res_language = Some (case map_of opts ''language'' of
                                          None \<Rightarrow> ''fr'' | Some c \<Rightarrow> c),
                   res_segments = Some two_segments\<rparr>),
      stdout_encodes = (\<lambda>c. True)\<rparr>"

text \<open>An engine whose only segment ends before it starts.\<close>

definition backwards_segment :: engine_segment where
  "backwards_segment =
     \<lparr>seg_start = Some (PyFloat 5), seg_end = Some (PyFloat 3), seg_text = Some '' oh''\<rparr>"

definition env_backwards :: "string env" where
  "env_backwards =
     \<lparr>path_exists = (\<lambda>p. True),
      load_model = (\<lambda>m. Inr m),
      transcribe = (\<lambda>m p opts.
         Inr \<lparr>res_text = Some '' oh'', res_language = Some ''en'',
              res_segments = Some [backwards_segment]\<rparr>),
      stdout_encodes = (\<lambda>c. True)\<rparr>"

text \<open>An empty file system: no path exists. The engine is never reached.\<close>

definition env_no_files :: "string env" where
  "env_no_files =
     \<lparr>path_exists = (\<lambda>p. False),
      load_model = (\<lambda>m. Inr m),
      transcribe = (\<lambda>m p opts. Inr \<lparr>res_text = None, res_language = None, res_segments = None\<rparr>),
      stdout_encodes = (\<lambda>c. True)\<rparr>"


definition env_ascii_stdout :: "string env" where
  "env_ascii_stdout =
     \<lparr>path_exists = (\<lambda>p. p = ''a.wav''),
      load_model = (\<lambda>m. Inr m),
      transcribe = (\<lambda>m p opts.
         Inr \<lparr>res_text = Some ('' caf'' @ [CHR 0xE9]), res_language = Some ''fr'',
              res_segments = Some []\<rparr>),
      stdout_encodes = (\<lambda>c. False)\<rparr>"

text \<open>An engine that is interrupted from the keyboard while it loads the model.\<close>

definition keyboard_interrupt :: py_exception where
  "keyboard_interrupt =
     \<lparr>exc_class = ''KeyboardInterrupt'', exc_str = [], exc_is_exception = False\<rparr>"

definition env_interrupted :: "string env" where
  "env_interrupted =
     \<lparr>path_exists = (\<lambda>p. True),
      load_model = (\<lambda>m. Inl keyboard_interrupt),
      transcribe = (\<lambda>m p opts. Inr \<lparr>res_text = None, res_language = None, res_segments = None\<rparr>),
      stdout_encodes = (\<lambda>c. True)\<rparr>"

section \<open>Properties\<close>

subsection \<open>The paths through \<^verbatim>\<open>transcribe_audio\<close>\<close>

text \<open>
  There are five: the file is missing; \<^verbatim>\<open>load_model\<close> raises; \<^verbatim>\<open>transcribe\<close>
  raises; the result has no \<^verbatim>\<open>"text"\<close>; success.
\<close>

lemma transcribe_audio_missing:
  assumes "\<not> path_exists env p"
  shows "transcribe_audio env p m l =
           ([PathExists p],
            Inr [(''success'', JBool False),
                 (''error'', JStr (''Audio file not found: '' @ p))])"
  using assms by (simp add: transcribe_audio_def transcribe_audio_try_def)

lemma transcribe_audio_load_raises:
  assumes "path_exists env p" and "load_model env m = Inl e"
  shows "transcribe_audio env p m l = ([PathExists p, LoadModel m], except_Exception e)"
  using assms by (simp add: transcribe_audio_def transcribe_audio_try_def)

lemma transcribe_audio_engine_raises:
  assumes "path_exists env p" and "load_model env m = Inr inst"
    and "transcribe env inst p (build_options l) = Inl e"
  shows "transcribe_audio env p m l =
           ([PathExists p, LoadModel m, Transcribe p (build_options l)], except_Exception e)"
  using assms by (simp add: transcribe_audio_def transcribe_audio_try_def)

lemma transcribe_audio_no_text:
  assumes "path_exists env p" and "load_model env m = Inr inst"
    and "transcribe env inst p (build_options l) = Inr result"
    and "res_text result = None"
  shows "transcribe_audio env p m l =
           ([PathExists p, LoadModel m, Transcribe p (build_options l)],
            Inr [(''success'', JBool False),
                 (''error'', JStr (''Transcription failed: '' @ exc_str key_error_text))])"
  using assms
  by (simp add: transcribe_audio_def transcribe_audio_try_def except_Exception_def
      key_error_text_def)

lemma transcribe_audio_success:
  assumes "path_exists env p" and "load_model env m = Inr inst"
    and "transcribe env inst p (build_options l) = Inr result"
    and "res_text result = Some t"
  shows "transcribe_audio env p m l =
           ([PathExists p, LoadModel m, Transcribe p (build_options l)],
            Inr (success_dict result t (extract_segments result) m))"
  using assms by (simp add: transcribe_audio_def transcribe_audio_try_def)

lemma transcribe_audio_paths:
  obtains
    (missing) "\<not> path_exists env p"
  | (load_raises) e where "path_exists env p" and "load_model env m = Inl e"
  | (engine_raises) inst e where "path_exists env p" and "load_model env m = Inr inst"
      and "transcribe env inst p (build_options l) = Inl e"
  | (no_text) inst result where "path_exists env p" and "load_model env m = Inr inst"
      and "transcribe env inst p (build_options l) = Inr result" and "res_text result = None"
  | (success) inst result t where "path_exists env p" and "load_model env m = Inr inst"
      and "transcribe env inst p (build_options l) = Inr result" and "res_text result = Some t"
proof (cases "path_exists env p")
  case False
  then show ?thesis by (rule missing)
next
  case ex: True
  show ?thesis
  proof (cases "load_model env m")
    case (Inl e)
    with ex show ?thesis by (rule load_raises)
  next
    case ld: (Inr inst)
    show ?thesis
    proof (cases "transcribe env inst p (build_options l)")
      case (Inl e)
      with ex ld show ?thesis by (rule engine_raises)
    next
      case tr: (Inr result)
      show ?thesis
      proof (cases "res_text result")
        case None
        with ex ld tr show ?thesis by (rule no_text)
      next
        case (Some t)
        with ex ld tr show ?thesis by (rule success)
      qed
    qed
  qed
qed

text \<open>What the handler returns is a failure; what it lets out is not an \<^verbatim>\<open>Exception\<close>.\<close>

lemma except_Exception_Inr:
  "except_Exception e = Inr r \<longleftrightarrow>
     exc_is_exception e
     \<and> r = [(''success'', JBool False),
            (''error'', JStr (''Transcription failed: '' @ exc_str e))]"
  by (auto simp add: except_Exception_def)

lemma except_Exception_Inl:
  "except_Exception e = Inl e' \<longleftrightarrow> \<not> exc_is_exception e \<and> e' = e"
  by (auto simp add: except_Exception_def)

text \<open>A result says \<^verbatim>\<open>success: True\<close> only on the fifth path.\<close>

lemma success_only_on_success_path:
  assumes "snd (transcribe_audio env p m l) = Inr r"
    and "map_of r ''success'' = Some (JBool True)"
  obtains inst result t where "path_exists env p" and "load_model env m = Inr inst"
    and "transcribe env inst p (build_options l) = Inr result" and "res_text result = Some t"
    and "r = success_dict result t (extract_segments result) m"
proof (cases rule: transcribe_audio_paths [where env = env and p = p and m = m and l = l])
  case missing
  with assms show ?thesis by (auto simp add: transcribe_audio_missing)
next
  case (load_raises e)
  with assms show ?thesis by (auto simp add: transcribe_audio_load_raises except_Exception_Inr)
next
  case (engine_raises inst e)
  with assms show ?thesis by (auto simp add: transcribe_audio_engine_raises except_Exception_Inr)
next
  case (no_text inst result)
  with assms show ?thesis by (auto simp add: transcribe_audio_no_text)
next
  case (success inst result t)
  moreover from success assms(1) have "r = success_dict result t (extract_segments result) m"
    by (simp add: transcribe_audio_success)
  ultimately show ?thesis by (rule that)
qed

text \<open>Every result has the key \<^verbatim>\<open>"success"\<close>, bound to a Boolean.\<close>

lemma transcribe_audio_success_key:
  assumes "snd (transcribe_audio env p m l) = Inr r"
  shows "\<exists>b. map_of r ''success'' = Some (JBool b)"
  using assms
  by (cases rule: transcribe_audio_paths [where env = env and p = p and m = m and l = l])
    (auto simp add: transcribe_audio_missing transcribe_audio_load_raises
      transcribe_audio_engine_raises transcribe_audio_no_text transcribe_audio_success
      success_dict_def except_Exception_Inr)

text \<open>An exception that comes out is one the engine raised, and not an \<^verbatim>\<open>Exception\<close>.\<close>

lemma transcribe_audio_propagates:
  assumes "snd (transcribe_audio env p m l) = Inl e"
  shows "\<not> exc_is_exception e
       \<and> (load_model env m = Inl e
          \<or> (\<exists>inst. load_model env m = Inr inst
                    \<and> transcribe env inst p (build_options l) = Inl e))"
  using assms
  by (cases rule: transcribe_audio_paths [where env = env and p = p and m = m and l = l])
    (auto simp add: transcribe_audio_missing transcribe_audio_load_raises
      transcribe_audio_engine_raises transcribe_audio_no_text transcribe_audio_success
      except_Exception_Inl)

lemma transcribe_audio_calls_nonempty: "fst (transcribe_audio env p m l) \<noteq> []"
  by (cases rule: transcribe_audio_paths [where env = env and p = p and m = m and l = l])
    (simp_all add: transcribe_audio_missing transcribe_audio_load_raises
      transcribe_audio_engine_raises transcribe_audio_no_text transcribe_audio_success)

subsection \<open>The loop over the segments\<close>

lemma append_segments_map: "append_segments acc segs = acc @ map segment_dict segs"
  by (induction segs arbitrary: acc) simp_all

lemma extract_segments_map: "extract_segments result = map segment_dict (engine_segments result)"
  by (simp add: extract_segments_def engine_segments_def append_segments_map split: option.splits)

subsection \<open>\<^verbatim>\<open>strip\<close> against the specification's "trimmed"\<close>

lemma dropWhile_all: "list_all P xs \<Longrightarrow> dropWhile P (xs @ ys) = dropWhile P ys"
  by (induction xs) simp_all

lemma dropWhile_hd: "xs \<noteq> [] \<Longrightarrow> \<not> P (hd xs) \<Longrightarrow> dropWhile P xs = xs"
  by (cases xs) simp_all

lemma py_strip_trimmed: "trimmed_spec s (py_strip s)"
proof -
  define d where "d = dropWhile py_isspace s"
  define t where "t = rev (dropWhile py_isspace (rev d))"
  define r where "r = rev (takeWhile py_isspace (rev d))"
  have s: "s = takeWhile py_isspace s @ d" by (simp add: d_def)
  have "d = rev (takeWhile py_isspace (rev d) @ dropWhile py_isspace (rev d))"
    by (simp only: takeWhile_dropWhile_id rev_rev_ident)
  then have d: "d = t @ r" by (simp only: rev_append t_def r_def)
  have l_ws: "list_all py_isspace (takeWhile py_isspace s)"
    by (auto simp: list_all_iff dest: set_takeWhileD)
  have r_ws: "list_all py_isspace r"
    by (auto simp: r_def list_all_iff dest: set_takeWhileD)
  have ends: "t = [] \<or> (\<not> py_isspace (hd t) \<and> \<not> py_isspace (last t))"
  proof (cases "t = []")
    case True
    then show ?thesis by simp
  next
    case False
    then have ne: "dropWhile py_isspace (rev d) \<noteq> []" by (simp add: t_def)
    then have "\<not> py_isspace (hd (dropWhile py_isspace (rev d)))" by (rule hd_dropWhile)
    then have last: "\<not> py_isspace (last t)" using ne by (simp add: t_def last_rev)
    from False d have "d \<noteq> []" by auto
    then have "\<not> py_isspace (hd d)" unfolding d_def by (rule hd_dropWhile)
    moreover have "hd d = hd t" using d False by simp
    ultimately show ?thesis using last by simp
  qed
  have "py_strip s = t" by (simp add: py_strip_def t_def d_def)
  moreover have "s = takeWhile py_isspace s @ t @ r" using s d by simp
  ultimately show ?thesis unfolding trimmed_spec_def using l_ws r_ws ends by blast
qed

lemma trimmed_spec_unique:
  assumes "trimmed_spec s t"
  shows "t = py_strip s"
proof -
  from assms obtain l r where s: "s = l @ t @ r" and l: "list_all py_isspace l"
    and r: "list_all py_isspace r"
    and ends: "t = [] \<or> (\<not> py_isspace (hd t) \<and> \<not> py_isspace (last t))"
    unfolding trimmed_spec_def by blast
  have r': "list_all py_isspace (rev r)" using r by (simp add: list_all_iff)
  have d1: "dropWhile py_isspace s = dropWhile py_isspace (t @ r)"
    using l by (simp add: s dropWhile_all)
  show ?thesis
  proof (cases "t = []")
    case True
    have e: "dropWhile py_isspace s = []"
      using d1 True r by (simp add: dropWhile_eq_Nil_conv list_all_iff)
    show ?thesis unfolding py_strip_def e using True by simp
  next
    case False
    with ends have h: "\<not> py_isspace (hd t)" and la: "\<not> py_isspace (last t)" by auto
    from False h have "dropWhile py_isspace (t @ r) = t @ r" by (simp add: dropWhile_hd)
    then have "py_strip s = rev (dropWhile py_isspace (rev r @ rev t))"
      using d1 by (simp add: py_strip_def)
    also have "dropWhile py_isspace (rev r @ rev t) = dropWhile py_isspace (rev t)"
      using r' by (rule dropWhile_all)
    also have "dropWhile py_isspace (rev t) = rev t"
      using False la by (simp add: dropWhile_hd hd_rev)
    finally show ?thesis by simp
  qed
qed

subsection \<open>Printing\<close>

lemma print_ascii:
  "print_json_dumps env obj indent True =
     Some \<lparr>dump_doc = obj, dump_indent = indent, dump_ensure_ascii = True\<rparr>"
  by (simp add: print_json_dumps_def)

lemma print_raw:
  "print_json_dumps env obj indent False =
     (if stdout_accepts env obj
      then Some \<lparr>dump_doc = obj, dump_indent = indent, dump_ensure_ascii = False\<rparr>
      else None)"
  by (simp add: print_json_dumps_def)



lemma stdout_accepts_everything:
  assumes "\<And>c. stdout_encodes env c"
  shows "stdout_accepts env obj"
  using assms by (simp add: stdout_accepts_def encodable_def list_all_iff)

subsection \<open>The paths through \<^verbatim>\<open>main\<close>\<close>

lemma main_usage:
  assumes "length argv < 2"
  shows "main env argv =
           \<lparr>run_stdout =
              [\<lparr>dump_doc = JObj [(''success'', JBool False), (''error'', JStr usage_message)],
                dump_indent = None, dump_ensure_ascii = True\<rparr>],
            run_calls = [],
            run_status = Exit 1\<rparr>"
  using assms by (simp add: main_def print_ascii)

lemma main_returns:
  assumes "\<not> length argv < 2"
    and "transcribe_audio env (argv ! 1)
           (if length argv > 2 then argv ! 2 else ''tiny'')
           (if length argv > 3 then Some (argv ! 3) else None) = (calls, Inr result)"
  shows "main env argv = print_and_exit env calls result"
  unfolding main_def Let_def using assms by (simp only: if_False split_conv sum.case)

lemma main_propagates:
  assumes "\<not> length argv < 2"
    and "transcribe_audio env (argv ! 1)
           (if length argv > 2 then argv ! 2 else ''tiny'')
           (if length argv > 3 then Some (argv ! 3) else None) = (calls, Inl e)"
  shows "main env argv = \<lparr>run_stdout = [], run_calls = calls, run_status = Uncaught e\<rparr>"
  unfolding main_def Let_def using assms by (simp only: if_False split_conv sum.case)

lemma print_and_exit_accepted:
  assumes "stdout_accepts env (JObj result)"
  shows "print_and_exit env calls result =
           \<lparr>run_stdout =
              [\<lparr>dump_doc = JObj result, dump_indent = Some 2, dump_ensure_ascii = False\<rparr>],
            run_calls = calls,
            run_status =
              (case map_of result ''success'' of
                 None \<Rightarrow> Uncaught key_error_success
               | Some v \<Rightarrow> Exit (if truthy v then 0 else 1))\<rparr>"
  using assms by (simp add: print_and_exit_def print_raw)

lemma print_and_exit_refused:
  assumes "\<not> stdout_accepts env (JObj result)"
  shows "print_and_exit env calls result =
           \<lparr>run_stdout = [], run_calls = calls, run_status = UncaughtEncodeError\<rparr>"
  using assms by (simp add: print_and_exit_def print_raw)

subsection \<open>The options passed to the engine\<close>

lemma build_options_cases:
  "build_options None = []"
  "build_options (Some []) = []"
  "c \<noteq> [] \<Longrightarrow> build_options (Some c) = [(''language'', c)]"
  by (simp_all add: build_options_def language_truthy_def)

lemma transcribe_options_calls:
  "set (transcribe_options (fst (transcribe_audio env p m l))) \<subseteq> {build_options l}"
  by (cases rule: transcribe_audio_paths [where env = env and p = p and m = m and l = l])
    (simp_all add: transcribe_audio_missing transcribe_audio_load_raises
      transcribe_audio_engine_raises transcribe_audio_no_text transcribe_audio_success)

subsection \<open>Runs in the concrete environments\<close>

lemma demo_success:
  "transcribe_audio env_demo ''a.wav'' ''tiny'' None =
     ([PathExists ''a.wav'', LoadModel ''tiny'', Transcribe ''a.wav'' []],
      Inr [(''success'', JBool True),
       (''text'', JStr ''Bonjour. Merci.''),
       (''language'', JStr ''fr''),
       (''segments'',
        JArr [JObj [(''start'', JNum (PyFloat 0)), (''end'', JNum (PyFloat (3 / 2))),
                    (''text'', JStr ''Bonjour.'')],
              JObj [(''start'', JNum (PyFloat (3 / 2))), (''end'', JNum (PyFloat (9 / 4))),
                    (''text'', JStr ''Merci.'')]]),
       (''model_used'', JStr ''tiny'')])"
  by (simp add: transcribe_audio_def transcribe_audio_try_def env_demo_def build_options_def
      extract_segments_def two_segments_def segment_dict_def get_start_def get_end_def
      get_text_def py_strip_def py_isspace_def success_dict_def)

lemma demo_language:
  "transcribe_audio env_demo ''a.wav'' ''base'' (Some ''en'') =
     ([PathExists ''a.wav'', LoadModel ''base'', Transcribe ''a.wav'' [(''language'', ''en'')]],
      Inr [(''success'', JBool True),
       (''text'', JStr ''Bonjour. Merci.''),
       (''language'', JStr ''en''),
       (''segments'',
        JArr [JObj [(''start'', JNum (PyFloat 0)), (''end'', JNum (PyFloat (3 / 2))),
                    (''text'', JStr ''Bonjour.'')],
              JObj [(''start'', JNum (PyFloat (3 / 2))), (''end'', JNum (PyFloat (9 / 4))),
                    (''text'', JStr ''Merci.'')]]),
       (''model_used'', JStr ''base'')])"
  by (simp add: transcribe_audio_def transcribe_audio_try_def env_demo_def build_options_def
      language_truthy_def
      extract_segments_def two_segments_def segment_dict_def get_start_def get_end_def
      get_text_def py_strip_def py_isspace_def success_dict_def)

lemma demo_empty_language:
  "fst (transcribe_audio env_demo ''a.wav'' ''tiny'' (Some [])) =
     [PathExists ''a.wav'', LoadModel ''tiny'', Transcribe ''a.wav'' []]"
  by (simp add: transcribe_audio_def transcribe_audio_try_def env_demo_def build_options_def
      language_truthy_def split: option.splits)

lemma demo_unreadable:
  "transcribe_audio env_demo ''noise.wav'' ''tiny'' None =
     ([PathExists ''noise.wav'', LoadModel ''tiny'', Transcribe ''noise.wav'' []],
      Inr [(''success'', JBool False),
       (''error'', JStr ''Transcription failed: Failed to load audio'')])"
  by (simp add: transcribe_audio_def transcribe_audio_try_def env_demo_def build_options_def
      audio_unreadable_def except_Exception_def)

lemma demo_ascii_stdout:
  "transcribe_audio env_ascii_stdout ''a.wav'' ''tiny'' None =
     ([PathExists ''a.wav'', LoadModel ''tiny'', Transcribe ''a.wav'' []],
      Inr [(''success'', JBool True),
           (''text'', JStr [CHR ''c'', CHR ''a'', CHR ''f'', CHR 0xE9]),
           (''language'', JStr ''fr''),
           (''segments'', JArr []),
           (''model_used'', JStr ''tiny'')])"
  by (simp add: transcribe_audio_def transcribe_audio_try_def env_ascii_stdout_def
      build_options_def extract_segments_def py_strip_def py_isspace_def success_dict_def)

lemma demo_interrupted:
  "transcribe_audio env_interrupted ''a.wav'' ''tiny'' None =
     ([PathExists ''a.wav'', LoadModel ''tiny''], Inl keyboard_interrupt)"
  by (simp add: transcribe_audio_def transcribe_audio_try_def env_interrupted_def
      except_Exception_def keyboard_interrupt_def)

lemma demo_accepts_all: "stdout_accepts env_demo obj"
  by (rule stdout_accepts_everything) (simp add: env_demo_def)

subsection \<open>Times of the output segments\<close>

lemma json_times_segment_dict:
  "json_times (segment_dict g) = Some (num_value (get_start g), num_value (get_end g))"
  by (simp add: json_times_def json_field_def segment_dict_def)

lemma output_times_segment_dicts:
  "output_times (map segment_dict segs) = Some (engine_times segs)"
  by (induction segs) (simp_all add: output_times_def engine_times_def json_times_segment_dict)

lemma demo_backwards:
  "transcribe_audio env_backwards ''a.wav'' ''tiny'' None =
     ([PathExists ''a.wav'', LoadModel ''tiny'', Transcribe ''a.wav'' []],
      Inr [(''success'', JBool True),
       (''text'', JStr ''oh''),
       (''language'', JStr ''en''),
       (''segments'',
        JArr [JObj [(''start'', JNum (PyFloat 5)), (''end'', JNum (PyFloat 3)),
                    (''text'', JStr ''oh'')]]),
       (''model_used'', JStr ''tiny'')])"
  by (simp add: transcribe_audio_def transcribe_audio_try_def env_backwards_def
      build_options_def extract_segments_def backwards_segment_def segment_dict_def
      get_start_def get_end_def get_text_def py_strip_def py_isspace_def success_dict_def)

subsection \<open>How a run of \<^verbatim>\<open>main\<close> ends\<close>

text \<open>
  Four ways: the usage error; an exception that left \<^verbatim>\<open>transcribe_audio\<close>; a result
  that \<^verbatim>\<open>print\<close> could not encode; a result that was printed.
\<close>

lemma main_cases:
  obtains
    (usage) "length argv < 2"
      and "main env argv =
           \<lparr>run_stdout =
              [\<lparr>dump_doc = JObj [(''success'', JBool False), (''error'', JStr usage_message)],
                dump_indent = None, dump_ensure_ascii = True\<rparr>],
            run_calls = [],
            run_status = Exit 1\<rparr>"
  | (propagated) calls e where "\<not> length argv < 2"
      and "transcribe_audio env (argv ! 1)
             (if length argv > 2 then argv ! 2 else ''tiny'')
             (if length argv > 3 then Some (argv ! 3) else None) = (calls, Inl e)"
      and "\<not> exc_is_exception e"
      and "main env argv = \<lparr>run_stdout = [], run_calls = calls, run_status = Uncaught e\<rparr>"
  | (refused) calls result where "\<not> length argv < 2"
      and "transcribe_audio env (argv ! 1)
             (if length argv > 2 then argv ! 2 else ''tiny'')
             (if length argv > 3 then Some (argv ! 3) else None) = (calls, Inr result)"
      and "\<not> stdout_accepts env (JObj result)"
      and "main env argv =
             \<lparr>run_stdout = [], run_calls = calls, run_status = UncaughtEncodeError\<rparr>"
  | (printed) calls result b where "\<not> length argv < 2"
      and "transcribe_audio env (argv ! 1)
             (if length argv > 2 then argv ! 2 else ''tiny'')
             (if length argv > 3 then Some (argv ! 3) else None) = (calls, Inr result)"
      and "stdout_accepts env (JObj result)"
      and "map_of result ''success'' = Some (JBool b)"
      and "main env argv =
             \<lparr>run_stdout =
                [\<lparr>dump_doc = JObj result, dump_indent = Some 2, dump_ensure_ascii = False\<rparr>],
              run_calls = calls,
              run_status = Exit (if b then 0 else 1)\<rparr>"
proof (cases "length argv < 2")
  case True
  then show ?thesis using main_usage [OF True] by (rule usage)
next
  case long: False
  obtain calls outcome where
    call: "transcribe_audio env (argv ! 1)
             (if length argv > 2 then argv ! 2 else ''tiny'')
             (if length argv > 3 then Some (argv ! 3) else None) = (calls, outcome)"
    by (cases "transcribe_audio env (argv ! 1)
             (if length argv > 2 then argv ! 2 else ''tiny'')
             (if length argv > 3 then Some (argv ! 3) else None)")
  show ?thesis
  proof (cases outcome)
    case (Inl e)
    with call have c: "transcribe_audio env (argv ! 1)
             (if length argv > 2 then argv ! 2 else ''tiny'')
             (if length argv > 3 then Some (argv ! 3) else None) = (calls, Inl e)"
      by simp
    then have "snd (transcribe_audio env (argv ! 1)
             (if length argv > 2 then argv ! 2 else ''tiny'')
             (if length argv > 3 then Some (argv ! 3) else None)) = Inl e"
      by simp
    then have "\<not> exc_is_exception e"
      by (rule transcribe_audio_propagates [THEN conjunct1])
    with long c show ?thesis using main_propagates [OF long c] by (rule propagated)
  next
    case (Inr result)
    with call have c: "transcribe_audio env (argv ! 1)
             (if length argv > 2 then argv ! 2 else ''tiny'')
             (if length argv > 3 then Some (argv ! 3) else None) = (calls, Inr result)"
      by simp
    note m = main_returns [OF long c]
    show ?thesis
    proof (cases "stdout_accepts env (JObj result)")
      case False
      with long c show ?thesis
        using m [unfolded print_and_exit_refused [OF False]] by (rule refused)
    next
      case True
      from c have "snd (transcribe_audio env (argv ! 1)
             (if length argv > 2 then argv ! 2 else ''tiny'')
             (if length argv > 3 then Some (argv ! 3) else None)) = Inr result"
        by simp
      then obtain b where b: "map_of result ''success'' = Some (JBool b)"
        using transcribe_audio_success_key by blast
      have "main env argv =
             \<lparr>run_stdout =
                [\<lparr>dump_doc = JObj result, dump_indent = Some 2, dump_ensure_ascii = False\<rparr>],
              run_calls = calls,
              run_status = Exit (if b then 0 else 1)\<rparr>"
        by (simp add: m print_and_exit_accepted [OF True] b)
      with long c True b show ?thesis by (rule printed)
    qed
  qed
qed

subsection \<open>Runs of \<^verbatim>\<open>main\<close> in the concrete environments\<close>

lemma run_demo_success:
  "main env_demo [''whisper_transcribe.py'', ''a.wav''] =
     \<lparr>run_stdout =
        [\<lparr>dump_doc = JObj (projr (snd (transcribe_audio env_demo ''a.wav'' ''tiny'' None))),
          dump_indent = Some 2, dump_ensure_ascii = False\<rparr>],
      run_calls = [PathExists ''a.wav'', LoadModel ''tiny'', Transcribe ''a.wav'' []],
      run_status = Exit 0\<rparr>"
  by (simp add: main_def demo_success print_and_exit_accepted [OF demo_accepts_all])

lemma run_demo_unreadable:
  "main env_demo [''whisper_transcribe.py'', ''noise.wav''] =
     \<lparr>run_stdout =
        [\<lparr>dump_doc = JObj [(''success'', JBool False),
                           (''error'', JStr ''Transcription failed: Failed to load audio'')],
          dump_indent = Some 2, dump_ensure_ascii = False\<rparr>],
      run_calls = [PathExists ''noise.wav'', LoadModel ''tiny'', Transcribe ''noise.wav'' []],
      run_status = Exit 1\<rparr>"
  by (simp add: main_def demo_unreadable print_and_exit_accepted [OF demo_accepts_all])

lemma ascii_stdout_refuses:
  "\<not> stdout_accepts env_ascii_stdout
        (JObj [(''success'', JBool True),
               (''text'', JStr [CHR ''c'', CHR ''a'', CHR ''f'', CHR 0xE9]),
               (''language'', JStr ''fr''),
               (''segments'', JArr []),
               (''model_used'', JStr ''tiny'')])"
  by (simp add: stdout_accepts_def encodable_def env_ascii_stdout_def)

lemma run_ascii_stdout:
  "main env_ascii_stdout [''whisper_transcribe.py'', ''a.wav''] =
     \<lparr>run_stdout = [],
      run_calls = [PathExists ''a.wav'', LoadModel ''tiny'', Transcribe ''a.wav'' []],
      run_status = UncaughtEncodeError\<rparr>"
  by (simp add: main_def demo_ascii_stdout print_and_exit_refused [OF ascii_stdout_refuses])

lemma run_interrupted:
  "main env_interrupted [''whisper_transcribe.py'', ''a.wav''] =
     \<lparr>run_stdout = [],
      run_calls = [PathExists ''a.wav'', LoadModel ''tiny''],
      run_status = Uncaught keyboard_interrupt\<rparr>"
  by (simp add: main_def demo_interrupted)

lemma demo_only_Exception: "raises_only_Exception env_demo"
  by (auto simp add: raises_only_Exception_def env_demo_def model_not_found_def
      audio_unreadable_def split: if_splits)

subsection \<open>The claims\<close>







text \<open>
  Claim C3. A run with no positional argument (\<^verbatim>\<open>sys.argv\<close> holds at most the
  script's name) prints the usage object, whose \<^verbatim>\<open>success\<close> is false, exits with
  status 1 and makes no call to the environment; a call of \<^verbatim>\<open>transcribe_audio\<close> would
  have left its \<^verbatim>\<open>os.path.exists\<close> in the calls (\<open>transcribe_audio_calls_nonempty\<close>).
\<close>

theorem C3_usage_error:
  assumes "length argv < 2"
  shows "map dump_doc (run_stdout (main env argv)) =
           [JObj [(''success'', JBool False), (''error'', JStr usage_message)]]
       \<and> run_status (main env argv) = Exit 1
       \<and> run_calls (main env argv) = []"
  using assms by (simp add: main_usage)

theorem C3_usage_error_witness:
  "length [''whisper_transcribe.py''] < 2
   \<and> map dump_doc (run_stdout (main env_no_files [''whisper_transcribe.py''])) =
           [JObj [(''success'', JBool False), (''error'', JStr usage_message)]]
   \<and> run_status (main env_no_files [''whisper_transcribe.py'']) = Exit 1
   \<and> run_calls (main env_no_files [''whisper_transcribe.py'']) = []"
  using C3_usage_error [of "[''whisper_transcribe.py'']" env_no_files] by simp

text \<open>
  Claim C4. Whenever a run prints its document, the printed object has a Boolean
  \<^verbatim>\<open>success\<close> and the run ends with \<^verbatim>\<open>sys.exit\<close>: exit code 0 when \<^verbatim>\<open>success\<close> is
  true and 1 when it is false (usage error, missing file, caught exception). That is
  every run in which the engine raises only instances of \<^verbatim>\<open>Exception\<close> and standard
  output encodes every character. A run that prints nothing ends with an uncaught
  exception: the \<^verbatim>\<open>UnicodeEncodeError\<close> of \<^verbatim>\<open>print\<close>, with exit code 1 whatever
  \<^verbatim>\<open>success\<close> was; or an exception that is not an \<^verbatim>\<open>Exception\<close> and left
  \<^verbatim>\<open>transcribe_audio\<close>, whose exit code the script does not decide.
\<close>

theorem C4_exit_code:
  "(\<forall>n. run_status (main env argv) = Exit n \<longrightarrow>
        (n = 0 \<and> map (json_field ''success'' \<circ> dump_doc) (run_stdout (main env argv))
                   = [Some (JBool True)])
      \<or> (n = 1 \<and> map (json_field ''success'' \<circ> dump_doc) (run_stdout (main env argv))
                   = [Some (JBool False)]))
   \<and> (run_stdout (main env argv) \<noteq> [] \<longrightarrow>
        run_status (main env argv) = Exit 0 \<or> run_status (main env argv) = Exit 1)
   \<and> (run_status (main env argv) = UncaughtEncodeError \<longrightarrow>
        run_stdout (main env argv) = [] \<and> exit_code (run_status (main env argv)) = Some 1)
   \<and> (\<forall>e. run_status (main env argv) = Uncaught e \<longrightarrow>
        run_stdout (main env argv) = [] \<and> \<not> exc_is_exception e
        \<and> exit_code (run_status (main env argv)) = None)
   \<and> (raises_only_Exception env \<and> (\<forall>c. stdout_encodes env c) \<longrightarrow>
        (run_status (main env argv) = Exit 0
         \<and> map (json_field ''success'' \<circ> dump_doc) (run_stdout (main env argv))
             = [Some (JBool True)])
      \<or> (run_status (main env argv) = Exit 1
         \<and> map (json_field ''success'' \<circ> dump_doc) (run_stdout (main env argv))
             = [Some (JBool False)]))"
proof (cases rule: main_cases [where env = env and argv = argv])
  case usage
  show ?thesis unfolding usage(2) by (simp add: json_field_def)
next
  case (propagated calls e)
  from propagated(2) have "snd (transcribe_audio env (argv ! 1)
             (if length argv > 2 then argv ! 2 else ''tiny'')
             (if length argv > 3 then Some (argv ! 3) else None)) = Inl e"
    by simp
  from transcribe_audio_propagates [OF this] propagated(3)
  have "\<not> raises_only_Exception env"
    by (auto simp add: raises_only_Exception_def)
  with propagated(3) show ?thesis unfolding propagated(4) by simp
next
  case (refused calls result)
  then have "\<not> (\<forall>c. stdout_encodes env c)"
    using stdout_accepts_everything [of env "JObj result"] by blast
  then show ?thesis unfolding refused(4) by simp
next
  case (printed calls result b)
  show ?thesis unfolding printed(5) by (cases b) (simp_all add: json_field_def printed(4))
qed

theorem C4_exit_code_witness:
  "raises_only_Exception env_demo
   \<and> map (json_field ''success'' \<circ> dump_doc)
     (run_stdout (main env_demo [''whisper_transcribe.py'', ''a.wav''])) = [Some (JBool True)]
   \<and> run_status (main env_demo [''whisper_transcribe.py'', ''a.wav'']) = Exit 0
   \<and> map (json_field ''success'' \<circ> dump_doc)
     (run_stdout (main env_demo [''whisper_transcribe.py'', ''noise.wav''])) = [Some (JBool False)]
   \<and> run_status (main env_demo [''whisper_transcribe.py'', ''noise.wav'']) = Exit 1"
proof -
  from C4_exit_code [of env_demo "[''whisper_transcribe.py'', ''a.wav'']"]
    C4_exit_code [of env_demo "[''whisper_transcribe.py'', ''noise.wav'']"] demo_only_Exception
  show ?thesis
    by (simp add: run_demo_success run_demo_unreadable demo_success json_field_def)
qed

text \<open>
  Two runs that end neither with \<^verbatim>\<open>sys.exit(0)\<close> nor with \<^verbatim>\<open>sys.exit(1)\<close>. With an
  ASCII standard output and an e acute in the text, \<^verbatim>\<open>transcribe_audio\<close> returns
  \<^verbatim>\<open>success: True\<close>, nothing is emitted and the exit code is 1. With an engine
  interrupted from the keyboard, the interrupt is uncaught.
\<close>

theorem C4_uncaught_exceptions:
  "map_option (\<lambda>r. map_of r ''success'')
      (case snd (transcribe_audio env_ascii_stdout ''a.wav'' ''tiny'' None) of
         Inl e \<Rightarrow> None | Inr r \<Rightarrow> Some r) = Some (Some (JBool True))
   \<and> run_stdout (main env_ascii_stdout [''whisper_transcribe.py'', ''a.wav'']) = []
   \<and> run_status (main env_ascii_stdout [''whisper_transcribe.py'', ''a.wav''])
       = UncaughtEncodeError
   \<and> exit_code (run_status (main env_ascii_stdout [''whisper_transcribe.py'', ''a.wav'']))
       = Some 1
   \<and> run_stdout (main env_interrupted [''whisper_transcribe.py'', ''a.wav'']) = []
   \<and> run_status (main env_interrupted [''whisper_transcribe.py'', ''a.wav''])
       = Uncaught keyboard_interrupt
   \<and> exit_code (run_status (main env_interrupted [''whisper_transcribe.py'', ''a.wav'']))
       = None"
  by (simp add: run_ascii_stdout run_interrupted demo_ascii_stdout keyboard_interrupt_def)

text \<open>
  Claim C5. Whenever \<^verbatim>\<open>transcribe_audio\<close> calls the engine's \<^verbatim>\<open>transcribe\<close>, the
  options it passes hold the key \<^verbatim>\<open>"language"\<close> bound to the language code when that
  code is a non-empty string, and are empty when the language is \<^verbatim>\<open>None\<close> or the
  empty string; they never hold any other key.
\<close>

theorem C5_language_option:
  assumes "opts \<in> set (transcribe_options (fst (transcribe_audio env audio_path model language)))"
  shows "(language = None \<longrightarrow> opts = [])
       \<and> (language = Some [] \<longrightarrow> opts = [])
       \<and> (\<forall>c. language = Some c \<and> c \<noteq> [] \<longrightarrow> opts = [(''language'', c)])
       \<and> length opts \<le> 1
       \<and> set (map fst opts) \<subseteq> {''language''}"
proof -
  from assms transcribe_options_calls [of env audio_path model language]
  have opts: "opts = build_options language" by auto
  show ?thesis
  proof (cases language)
    case None
    with opts show ?thesis by (simp add: build_options_cases)
  next
    case (Some c)
    with opts show ?thesis by (cases "c = []") (simp_all add: build_options_cases)
  qed
qed

theorem C5_language_option_witness:
  "[(''language'', ''en'')] \<in>
     set (transcribe_options (fst (transcribe_audio env_demo ''a.wav'' ''base'' (Some ''en''))))
   \<and> length [(''language'', ''en'')] \<le> (1::nat)
   \<and> set (map fst [(''language'', ''en'')]) \<subseteq> {''language''}"
proof -
  have h: "[(''language'', ''en'')] \<in>
     set (transcribe_options (fst (transcribe_audio env_demo ''a.wav'' ''base'' (Some ''en''))))"
    by (simp add: demo_language)
  from C5_language_option [OF h] h show ?thesis by simp
qed

text \<open>
  With the empty string as language code, the engine is called with no
  \<^verbatim>\<open>"language"\<close> key, although a string was supplied.
\<close>

theorem C5_empty_code_not_passed:
  "transcribe_options (fst (transcribe_audio env_demo ''a.wav'' ''tiny'' (Some ''''))) = [[]]
   \<and> map (\<lambda>opts. map_of opts ''language'')
        (transcribe_options (fst (transcribe_audio env_demo ''a.wav'' ''tiny'' (Some ''''))))
       \<noteq> [Some '''']"
  by (simp add: demo_empty_language)

text \<open>
  Claim C6. A run with the audio path as its only argument is the run with the
  model argument \<^verbatim>\<open>tiny\<close>. On every success of \<^verbatim>\<open>transcribe_audio\<close> the engine was
  loaded once, with the model selector the function was given, and \<^verbatim>\<open>model_used\<close> is
  that selector; so a successful run without model argument loads \<^verbatim>\<open>tiny\<close> and
  reports \<^verbatim>\<open>tiny\<close>.
\<close>

theorem C6_model_selector:
  "(length argv = 2 \<longrightarrow> main env argv = main env (argv @ [''tiny'']))
   \<and> (snd (transcribe_audio env p m l) = Inr r
       \<and> map_of r ''success'' = Some (JBool True) \<longrightarrow>
         loaded_models (fst (transcribe_audio env p m l)) = [m]
       \<and> map_of r ''model_used'' = Some (JStr m))
   \<and> (length argv = 2
       \<and> map (json_field ''success'' \<circ> dump_doc) (run_stdout (main env argv)) = [Some (JBool True)]
       \<longrightarrow> loaded_models (run_calls (main env argv)) = [''tiny'']
         \<and> map (json_field ''model_used'' \<circ> dump_doc) (run_stdout (main env argv))
             = [Some (JStr ''tiny'')])"
proof -
  have used: "loaded_models (fst (transcribe_audio env p m l)) = [m]
       \<and> map_of r ''model_used'' = Some (JStr m)"
    if "snd (transcribe_audio env p m l) = Inr r"
      and "map_of r ''success'' = Some (JBool True)"
    for p m l r
    using that
  proof (rule success_only_on_success_path)
    fix inst result t
    assume "path_exists env p" and "load_model env m = Inr inst"
      and "transcribe env inst p (build_options l) = Inr result" and "res_text result = Some t"
      and "r = success_dict result t (extract_segments result) m"
    then show ?thesis
      by (simp add: transcribe_audio_success success_dict_def)
  qed
  have default: "main env argv = main env (argv @ [''tiny''])" if "length argv = 2"
  proof -
    from that obtain a b where "argv = [a, b]"
      by (cases argv; cases "tl argv") auto
    then show ?thesis by (simp add: main_def)
  qed
  have run: "loaded_models (run_calls (main env argv)) = [''tiny'']
         \<and> map (json_field ''model_used'' \<circ> dump_doc) (run_stdout (main env argv))
             = [Some (JStr ''tiny'')]"
    if len: "length argv = 2"
      and ok: "map (json_field ''success'' \<circ> dump_doc) (run_stdout (main env argv))
                 = [Some (JBool True)]"
  proof (cases rule: main_cases [where env = env and argv = argv])
    case usage
    with len show ?thesis by simp
  next
    case (propagated calls e)
    with ok show ?thesis by simp
  next
    case (refused calls result)
    with ok show ?thesis by simp
  next
    case (printed calls result b)
    from len printed(2) have call: "transcribe_audio env (argv ! 1) ''tiny'' None = (calls, Inr result)"
      by simp
    then have f: "fst (transcribe_audio env (argv ! 1) ''tiny'' None) = calls"
      and s: "snd (transcribe_audio env (argv ! 1) ''tiny'' None) = Inr result"
      by simp_all
    from ok have "map_of result ''success'' = Some (JBool True)"
      unfolding printed(5) by (simp add: json_field_def)
    from used [OF s this]
    have "loaded_models calls = [''tiny''] \<and> map_of result ''model_used'' = Some (JStr ''tiny'')"
      unfolding f .
    then show ?thesis unfolding printed(5) by (simp add: json_field_def)
  qed
  have c1: "length argv = 2 \<longrightarrow> main env argv = main env (argv @ [''tiny''])"
    by (rule impI) (rule default)
  have c2: "snd (transcribe_audio env p m l) = Inr r
       \<and> map_of r ''success'' = Some (JBool True) \<longrightarrow>
         loaded_models (fst (transcribe_audio env p m l)) = [m]
       \<and> map_of r ''model_used'' = Some (JStr m)"
    by (rule impI, erule conjE) (rule used)
  have c3: "length argv = 2
       \<and> map (json_field ''success'' \<circ> dump_doc) (run_stdout (main env argv)) = [Some (JBool True)]
       \<longrightarrow> loaded_models (run_calls (main env argv)) = [''tiny'']
         \<and> map (json_field ''model_used'' \<circ> dump_doc) (run_stdout (main env argv))
             = [Some (JStr ''tiny'')]"
    by (rule impI, erule conjE) (rule run)
  from c1 c2 c3 show ?thesis by (rule conjI [OF _ conjI])
qed

theorem C6_model_selector_witness:
  "length [''whisper_transcribe.py'', ''a.wav''] = 2
   \<and> main env_demo [''whisper_transcribe.py'', ''a.wav'']
       = main env_demo [''whisper_transcribe.py'', ''a.wav'', ''tiny'']
   \<and> map (json_field ''success'' \<circ> dump_doc)
        (run_stdout (main env_demo [''whisper_transcribe.py'', ''a.wav''])) = [Some (JBool True)]
   \<and> loaded_models (run_calls (main env_demo [''whisper_transcribe.py'', ''a.wav''])) = [''tiny'']
   \<and> map (json_field ''model_used'' \<circ> dump_doc)
        (run_stdout (main env_demo [''whisper_transcribe.py'', ''a.wav''])) = [Some (JStr ''tiny'')]"
proof -
  have ok: "map (json_field ''success'' \<circ> dump_doc)
        (run_stdout (main env_demo [''whisper_transcribe.py'', ''a.wav''])) = [Some (JBool True)]"
    by (simp add: run_demo_success demo_success json_field_def)
  have same: "main env_demo [''whisper_transcribe.py'', ''a.wav'', ''tiny'']
                = main env_demo [''whisper_transcribe.py'', ''a.wav'']"
    by (simp add: main_def)
  from C6_model_selector
         [of "[''whisper_transcribe.py'', ''a.wav'']" env_demo "''a.wav''" "''tiny''" None
             "projr (snd (transcribe_audio env_demo ''a.wav'' ''tiny'' None))"] ok
  show ?thesis by (simp add: same run_demo_success demo_success json_field_def)
qed

text \<open>
  Claim C7. The script copies the times: on every success the \<^verbatim>\<open>segments\<close> of the
  output carry, in the engine's order, the \<^verbatim>\<open>start\<close> and \<^verbatim>\<open>end\<close> of the engine's
  segments (0 for a time the engine left out). So the output satisfies
  "\<open>start \<le> end\<close>, both non-negative, ordered non-decreasingly by \<open>start\<close>" exactly
  when the engine's segments do; the script itself neither checks nor repairs it.
\<close>

theorem C7_times_copied:
  assumes "snd (transcribe_audio env p m l) = Inr r"
    and "map_of r ''success'' = Some (JBool True)"
  shows "\<exists>inst result out.
           load_model env m = Inr inst
         \<and> transcribe env inst p (build_options l) = Inr result
         \<and> map_of r ''segments'' = Some (JArr out)
         \<and> output_times out = Some (engine_times (engine_segments result))
         \<and> output_times_ok out = times_ok (engine_times (engine_segments result))"
  using assms
proof (rule success_only_on_success_path)
  fix inst result t
  assume ex: "path_exists env p" and ld: "load_model env m = Inr inst"
    and tr: "transcribe env inst p (build_options l) = Inr result"
    and tx: "res_text result = Some t"
    and r: "r = success_dict result t (extract_segments result) m"
  define out where "out = map segment_dict (engine_segments result)"
  have seg: "map_of r ''segments'' = Some (JArr out)"
    by (simp add: r success_dict_def extract_segments_map out_def)
  have times: "output_times out = Some (engine_times (engine_segments result))"
    by (simp add: out_def output_times_segment_dicts)
  then have ok: "output_times_ok out = times_ok (engine_times (engine_segments result))"
    by (simp add: output_times_ok_def)
  from ld tr seg times ok show ?thesis by (intro exI conjI)
qed

theorem C7_times_copied_witness:
  "map_of (projr (snd (transcribe_audio env_demo ''a.wav'' ''tiny'' None))) ''success''
     = Some (JBool True)
   \<and> output_times
        [JObj [(''start'', JNum (PyFloat 0)), (''end'', JNum (PyFloat (3 / 2))),
               (''text'', JStr ''Bonjour.'')],
         JObj [(''start'', JNum (PyFloat (3 / 2))), (''end'', JNum (PyFloat (9 / 4))),
               (''text'', JStr ''Merci.'')]]
       = Some (engine_times two_segments)
   \<and> times_ok (engine_times two_segments)"
proof -
  have r: "snd (transcribe_audio env_demo ''a.wav'' ''tiny'' None)
             = Inr (projr (snd (transcribe_audio env_demo ''a.wav'' ''tiny'' None)))"
    by (simp add: demo_success)
  have h: "map_of (projr (snd (transcribe_audio env_demo ''a.wav'' ''tiny'' None))) ''success''
             = Some (JBool True)"
    by (simp add: demo_success)
  from C7_times_copied [OF r h] obtain inst result out where
    tr: "transcribe env_demo inst ''a.wav'' (build_options None) = Inr result"
    and seg: "map_of (projr (snd (transcribe_audio env_demo ''a.wav'' ''tiny'' None))) ''segments''
                = Some (JArr out)"
    and times: "output_times out = Some (engine_times (engine_segments result))"
    by blast
  from tr have "engine_segments result = two_segments"
    by (auto simp add: env_demo_def engine_segments_def)
  moreover from seg have "out =
        [JObj [(''start'', JNum (PyFloat 0)), (''end'', JNum (PyFloat (3 / 2))),
               (''text'', JStr ''Bonjour.'')],
         JObj [(''start'', JNum (PyFloat (3 / 2))), (''end'', JNum (PyFloat (9 / 4))),
               (''text'', JStr ''Merci.'')]]"
    by (simp add: demo_success)
  moreover have "times_ok (engine_times two_segments)"
    by (simp add: times_ok_def engine_times_def two_segments_def get_start_def get_end_def)
  ultimately show ?thesis using h times by simp
qed

text \<open>
  An engine that reports one segment from 5 to 3 seconds: the run succeeds and the
  output has that segment, whose \<^verbatim>\<open>end\<close> is before its \<^verbatim>\<open>start\<close>.
\<close>

theorem C7_backwards_segment_output:
  "snd (transcribe_audio env_backwards ''a.wav'' ''tiny'' None) =
     Inr [(''success'', JBool True),
          (''text'', JStr ''oh''),
          (''language'', JStr ''en''),
          (''segments'',
           JArr [JObj [(''start'', JNum (PyFloat 5)), (''end'', JNum (PyFloat 3)),
                       (''text'', JStr ''oh'')]]),
          (''model_used'', JStr ''tiny'')]
   \<and> \<not> output_times_ok [JObj [(''start'', JNum (PyFloat 5)), (''end'', JNum (PyFloat 3)),
                               (''text'', JStr ''oh'')]]"
  by (simp add: demo_backwards output_times_ok_def output_times_def json_times_def
      json_field_def times_ok_def)

text \<open>
  Claim C8. Let \<open>r\<close> be a result of \<^verbatim>\<open>transcribe_audio\<close>. Its \<^verbatim>\<open>success\<close> is false or
  true. If it is false, \<open>r\<close> has exactly the keys \<^verbatim>\<open>success\<close> and \<^verbatim>\<open>error\<close>, the
  error is a non-empty string, and \<^verbatim>\<open>text\<close>, \<^verbatim>\<open>language\<close>, \<^verbatim>\<open>segments\<close> and
  \<^verbatim>\<open>model_used\<close> are absent. If it is true, the engine returned a result, and the
  \<^verbatim>\<open>segments\<close> of \<open>r\<close> are as many as the engine's and in the same order: the
  \<open>i\<close>-th one is made from the engine's \<open>i\<close>-th segment, and its text is that
  segment's text (empty if the engine gave none) with the surrounding whitespace
  trimmed, in the sense of the specification.
\<close>

theorem C8_result_shape:
  assumes "snd (transcribe_audio env p m l) = Inr r"
  shows "(map_of r ''success'' = Some (JBool False) \<or> map_of r ''success'' = Some (JBool True))
       \<and> (map_of r ''success'' = Some (JBool False) \<longrightarrow>
             (\<exists>msg. msg \<noteq> [] \<and> map_of r ''error'' = Some (JStr msg))
           \<and> map fst r = [''success'', ''error'']
           \<and> map_of r ''text'' = None \<and> map_of r ''language'' = None
           \<and> map_of r ''segments'' = None \<and> map_of r ''model_used'' = None)
       \<and> (map_of r ''success'' = Some (JBool True) \<longrightarrow>
             (\<exists>inst result out.
                load_model env m = Inr inst
              \<and> transcribe env inst p (build_options l) = Inr result
              \<and> map_of r ''segments'' = Some (JArr out)
              \<and> length out = length (engine_segments result)
              \<and> (\<forall>i < length out.
                    out ! i =
                      JObj [(''start'', JNum (get_start (engine_segments result ! i))),
                            (''end'', JNum (get_end (engine_segments result ! i))),
                            (''text'', JStr (py_strip (get_text (engine_segments result ! i))))]
                  \<and> trimmed_spec (get_text (engine_segments result ! i))
                                  (py_strip (get_text (engine_segments result ! i))))))"
proof (cases rule: transcribe_audio_paths [where env = env and p = p and m = m and l = l])
  case missing
  with assms
  have "r = [(''success'', JBool False), (''error'', JStr (''Audio file not found: '' @ p))]"
    by (simp add: transcribe_audio_missing)
  then show ?thesis by simp
next
  case (load_raises e)
  with assms have "r = [(''success'', JBool False),
                  (''error'', JStr (''Transcription failed: '' @ exc_str e))]"
    by (simp add: transcribe_audio_load_raises except_Exception_Inr)
  then show ?thesis by simp
next
  case (engine_raises inst e)
  with assms have "r = [(''success'', JBool False),
                  (''error'', JStr (''Transcription failed: '' @ exc_str e))]"
    by (simp add: transcribe_audio_engine_raises except_Exception_Inr)
  then show ?thesis by simp
next
  case (no_text inst result)
  with assms have "r = [(''success'', JBool False),
                  (''error'', JStr (''Transcription failed: '' @ exc_str key_error_text))]"
    by (simp add: transcribe_audio_no_text)
  then show ?thesis by simp
next
  case (success inst result t)
  define out where "out = map segment_dict (engine_segments result)"
  from success assms have r: "r = success_dict result t out m"
    by (simp add: transcribe_audio_success extract_segments_map out_def)
  have ok: "map_of r ''success'' = Some (JBool True)"
    by (simp add: r success_dict_def)
  have seg: "map_of r ''segments'' = Some (JArr out)"
    by (simp add: r success_dict_def)
  have len: "length out = length (engine_segments result)"
    by (simp add: out_def)
  have each: "\<forall>i < length out.
                    out ! i =
                      JObj [(''start'', JNum (get_start (engine_segments result ! i))),
                            (''end'', JNum (get_end (engine_segments result ! i))),
                            (''text'', JStr (py_strip (get_text (engine_segments result ! i))))]
                  \<and> trimmed_spec (get_text (engine_segments result ! i))
                                  (py_strip (get_text (engine_segments result ! i)))"
    by (simp add: out_def segment_dict_def py_strip_trimmed)
  have "\<exists>inst result out.
                load_model env m = Inr inst
              \<and> transcribe env inst p (build_options l) = Inr result
              \<and> map_of r ''segments'' = Some (JArr out)
              \<and> length out = length (engine_segments result)
              \<and> (\<forall>i < length out.
                    out ! i =
                      JObj [(''start'', JNum (get_start (engine_segments result ! i))),
                            (''end'', JNum (get_end (engine_segments result ! i))),
                            (''text'', JStr (py_strip (get_text (engine_segments result ! i))))]
                  \<and> trimmed_spec (get_text (engine_segments result ! i))
                                  (py_strip (get_text (engine_segments result ! i))))"
    using success(2,3) seg len each by (intro exI conjI)
  with ok show ?thesis by simp
qed

theorem C8_result_shape_witness:
  "map_of (projr (snd (transcribe_audio env_demo ''noise.wav'' ''tiny'' None))) ''success''
     = Some (JBool False)
   \<and> map_of (projr (snd (transcribe_audio env_demo ''noise.wav'' ''tiny'' None))) ''error''
     = Some (JStr ''Transcription failed: Failed to load audio'')
   \<and> map_of (projr (snd (transcribe_audio env_demo ''noise.wav'' ''tiny'' None))) ''segments'' = None
   \<and> map_of (projr (snd (transcribe_audio env_demo ''a.wav'' ''tiny'' None))) ''success''
     = Some (JBool True)
   \<and> map_of (projr (snd (transcribe_audio env_demo ''a.wav'' ''tiny'' None))) ''segments''
     = Some (JArr [JObj [(''start'', JNum (PyFloat 0)), (''end'', JNum (PyFloat (3 / 2))),
                         (''text'', JStr ''Bonjour.'')],
                   JObj [(''start'', JNum (PyFloat (3 / 2))), (''end'', JNum (PyFloat (9 / 4))),
                         (''text'', JStr ''Merci.'')]])
   \<and> trimmed_spec '' Merci. '' ''Merci.''"
proof -
  have rf: "snd (transcribe_audio env_demo ''noise.wav'' ''tiny'' None)
              = Inr (projr (snd (transcribe_audio env_demo ''noise.wav'' ''tiny'' None)))"
    by (simp add: demo_unreadable)
  have rs: "snd (transcribe_audio env_demo ''a.wav'' ''tiny'' None)
              = Inr (projr (snd (transcribe_audio env_demo ''a.wav'' ''tiny'' None)))"
    by (simp add: demo_success)
  note fail = C8_result_shape [OF rf]
  note succ = C8_result_shape [OF rs]
  have f: "map_of (projr (snd (transcribe_audio env_demo ''noise.wav'' ''tiny'' None))) ''success''
             = Some (JBool False)"
    by (simp add: demo_unreadable)
  with fail have absent:
    "map_of (projr (snd (transcribe_audio env_demo ''noise.wav'' ''tiny'' None))) ''segments'' = None"
    by simp
  have s: "map_of (projr (snd (transcribe_audio env_demo ''a.wav'' ''tiny'' None))) ''success''
             = Some (JBool True)"
    by (simp add: demo_success)
  from succ [THEN conjunct2, THEN conjunct2, THEN mp, OF s] obtain inst result out where
    "load_model env_demo ''tiny'' = Inr inst"
    and tr: "transcribe env_demo inst ''a.wav'' (build_options None) = Inr result"
    and "map_of (projr (snd (transcribe_audio env_demo ''a.wav'' ''tiny'' None))) ''segments''
           = Some (JArr out)"
    and len: "length out = length (engine_segments result)"
    and each: "\<forall>i < length out.
                 out ! i =
                   JObj [(''start'', JNum (get_start (engine_segments result ! i))),
                         (''end'', JNum (get_end (engine_segments result ! i))),
                         (''text'', JStr (py_strip (get_text (engine_segments result ! i))))]
               \<and> trimmed_spec (get_text (engine_segments result ! i))
                              (py_strip (get_text (engine_segments result ! i)))"
    by (elim exE conjE)
  from tr have segs: "engine_segments result = two_segments"
    by (auto simp add: env_demo_def engine_segments_def)
  with len have second: "1 < length out"
    by (simp add: two_segments_def)
  from each [rule_format, OF second]
  have "trimmed_spec (get_text (engine_segments result ! 1))
                     (py_strip (get_text (engine_segments result ! 1)))"
    by (rule conjunct2)
  then have "trimmed_spec '' Merci. '' ''Merci.''"
    by (simp add: segs two_segments_def get_text_def py_strip_def py_isspace_def)
  with f absent s show ?thesis by (simp add: demo_unreadable demo_success)
qed

text \<open>
  Claim C9. \<^verbatim>\<open>transcribe_audio\<close> never propagates an instance of \<^verbatim>\<open>Exception\<close>: when
  the body of its \<^verbatim>\<open>try\<close> raises one, in particular when \<^verbatim>\<open>load_model\<close> or
  \<^verbatim>\<open>transcribe\<close> does, the function returns the failure result whose error is
  "Transcription failed: " followed by \<^verbatim>\<open>str(e)\<close>, and among the instances of
  \<^verbatim>\<open>Exception\<close> the class plays no part. An exception that is not an instance of
  \<^verbatim>\<open>Exception\<close> (\<^verbatim>\<open>KeyboardInterrupt\<close>, \<^verbatim>\<open>SystemExit\<close>) is not caught by
  \<^verbatim>\<open>except Exception\<close> and reaches the caller.
\<close>

theorem C9_exceptions_caught:
  "(transcribe_audio_try env p m l = (calls, Inl e) \<and> exc_is_exception e \<longrightarrow>
      transcribe_audio env p m l =
        (calls, Inr [(''success'', JBool False),
                     (''error'', JStr (''Transcription failed: '' @ exc_str e))]))
   \<and> (transcribe_audio_try env p m l = (calls, Inl e) \<and> \<not> exc_is_exception e \<longrightarrow>
        transcribe_audio env p m l = (calls, Inl e))
   \<and> (path_exists env p \<and> load_model env m = Inl e \<and> exc_is_exception e \<longrightarrow>
        snd (transcribe_audio env p m l) =
          Inr [(''success'', JBool False),
               (''error'', JStr (''Transcription failed: '' @ exc_str e))])
   \<and> (path_exists env p \<and> load_model env m = Inr inst
        \<and> transcribe env inst p (build_options l) = Inl e \<and> exc_is_exception e \<longrightarrow>
        snd (transcribe_audio env p m l) =
          Inr [(''success'', JBool False),
               (''error'', JStr (''Transcription failed: '' @ exc_str e))])
   \<and> (path_exists env p \<and> load_model env m = Inl e \<and> exc_is_exception e
        \<and> path_exists env' p \<and> load_model env' m = Inl (e\<lparr>exc_class := c\<rparr>) \<longrightarrow>
        snd (transcribe_audio env' p m l) = snd (transcribe_audio env p m l))
   \<and> (\<forall>e'. snd (transcribe_audio env p m l) = Inl e' \<longrightarrow> \<not> exc_is_exception e')"
proof -
  have c1: "transcribe_audio_try env p m l = (calls, Inl e) \<and> exc_is_exception e \<longrightarrow>
      transcribe_audio env p m l =
        (calls, Inr [(''success'', JBool False),
                     (''error'', JStr (''Transcription failed: '' @ exc_str e))])"
    by (simp add: transcribe_audio_def except_Exception_def)
  have c2: "transcribe_audio_try env p m l = (calls, Inl e) \<and> \<not> exc_is_exception e \<longrightarrow>
        transcribe_audio env p m l = (calls, Inl e)"
    by (simp add: transcribe_audio_def except_Exception_def)
  have c3: "path_exists env p \<and> load_model env m = Inl e \<and> exc_is_exception e \<longrightarrow>
        snd (transcribe_audio env p m l) =
          Inr [(''success'', JBool False),
               (''error'', JStr (''Transcription failed: '' @ exc_str e))]"
    by (simp add: transcribe_audio_load_raises except_Exception_def)
  have c4: "path_exists env p \<and> load_model env m = Inr inst
        \<and> transcribe env inst p (build_options l) = Inl e \<and> exc_is_exception e \<longrightarrow>
        snd (transcribe_audio env p m l) =
          Inr [(''success'', JBool False),
               (''error'', JStr (''Transcription failed: '' @ exc_str e))]"
    by (simp add: transcribe_audio_engine_raises except_Exception_def)
  have c5: "path_exists env p \<and> load_model env m = Inl e \<and> exc_is_exception e
        \<and> path_exists env' p \<and> load_model env' m = Inl (e\<lparr>exc_class := c\<rparr>) \<longrightarrow>
        snd (transcribe_audio env' p m l) = snd (transcribe_audio env p m l)"
    by (simp add: transcribe_audio_load_raises except_Exception_def)
  have c6: "\<forall>e'. snd (transcribe_audio env p m l) = Inl e' \<longrightarrow> \<not> exc_is_exception e'"
    using transcribe_audio_propagates [of env p m l] by blast
  from c1 c2 c3 c4 c5 c6 show ?thesis
    by (rule conjI [OF _ conjI [OF _ conjI [OF _ conjI [OF _ conjI]]]])
qed

theorem C9_exceptions_caught_witness:
  "path_exists env_demo ''a.wav'' \<and> load_model env_demo ''huge'' = Inl model_not_found
   \<and> exc_is_exception model_not_found
   \<and> snd (transcribe_audio env_demo ''a.wav'' ''huge'' None) =
       Inr [(''success'', JBool False),
            (''error'', JStr ''Transcription failed: Model not found'')]
   \<and> load_model env_demo ''tiny'' = Inr ''tiny''
   \<and> transcribe env_demo ''tiny'' ''noise.wav'' (build_options None) = Inl audio_unreadable
   \<and> exc_is_exception audio_unreadable
   \<and> snd (transcribe_audio env_demo ''noise.wav'' ''tiny'' None) =
       Inr [(''success'', JBool False),
            (''error'', JStr ''Transcription failed: Failed to load audio'')]
   \<and> transcribe_audio_try env_interrupted ''a.wav'' ''tiny'' None
       = ([PathExists ''a.wav'', LoadModel ''tiny''], Inl keyboard_interrupt)
   \<and> \<not> exc_is_exception keyboard_interrupt
   \<and> transcribe_audio env_interrupted ''a.wav'' ''tiny'' None
       = ([PathExists ''a.wav'', LoadModel ''tiny''], Inl keyboard_interrupt)"
proof -
  have a: "path_exists env_demo ''a.wav''" and n: "path_exists env_demo ''noise.wav''"
    and b: "load_model env_demo ''huge'' = Inl model_not_found"
    and c: "load_model env_demo ''tiny'' = Inr ''tiny''"
    and d: "transcribe env_demo ''tiny'' ''noise.wav'' (build_options None) = Inl audio_unreadable"
    by (simp_all add: env_demo_def)
  have x: "exc_is_exception model_not_found" and y: "exc_is_exception audio_unreadable"
    and z: "\<not> exc_is_exception keyboard_interrupt"
    by (simp_all add: model_not_found_def audio_unreadable_def keyboard_interrupt_def)
  have t: "transcribe_audio_try env_interrupted ''a.wav'' ''tiny'' None
       = ([PathExists ''a.wav'', LoadModel ''tiny''], Inl keyboard_interrupt)"
    by (simp add: transcribe_audio_try_def env_interrupted_def)
  from C9_exceptions_caught
         [of env_demo "''a.wav''" "''huge''" None "[]" model_not_found "''tiny''" env_demo "[]"]
       a b x
  have "snd (transcribe_audio env_demo ''a.wav'' ''huge'' None) =
       Inr [(''success'', JBool False),
            (''error'', JStr ''Transcription failed: Model not found'')]"
    by (simp add: model_not_found_def)
  moreover
  from C9_exceptions_caught
         [of env_demo "''noise.wav''" "''tiny''" None "[]" audio_unreadable "''tiny''" env_demo "[]"]
       n c d y
  have "snd (transcribe_audio env_demo ''noise.wav'' ''tiny'' None) =
       Inr [(''success'', JBool False),
            (''error'', JStr ''Transcription failed: Failed to load audio'')]"
    by (simp add: audio_unreadable_def)
  moreover
  from C9_exceptions_caught
         [of env_interrupted "''a.wav''" "''tiny''" None
             "[PathExists ''a.wav'', LoadModel ''tiny'']" keyboard_interrupt "''tiny''"
             env_interrupted "[]"]
       t z
  have "transcribe_audio env_interrupted ''a.wav'' ''tiny'' None
       = ([PathExists ''a.wav'', LoadModel ''tiny''], Inl keyboard_interrupt)"
    by simp
  ultimately show ?thesis using a b c d x y z t by simp
qed

text \<open>
  An engine that is interrupted from the keyboard while it loads the model: the
  interrupt leaves \<^verbatim>\<open>transcribe_audio\<close>, which returns no result.
\<close>

theorem C9_interrupt_propagates:
  "path_exists env_interrupted ''a.wav''
   \<and> load_model env_interrupted ''tiny'' = Inl keyboard_interrupt
   \<and> snd (transcribe_audio env_interrupted ''a.wav'' ''tiny'' None) = Inl keyboard_interrupt
   \<and> snd (transcribe_audio env_interrupted ''a.wav'' ''tiny'' None) \<noteq>
       Inr [(''success'', JBool False),
            (''error'', JStr (''Transcription failed: '' @ exc_str keyboard_interrupt))]"
  by (simp add: demo_interrupted) (simp add: env_interrupted_def)

text \<open>
  Claim C10. With the empty string as language, \<^verbatim>\<open>transcribe_audio\<close> does exactly what
  it does with \<^verbatim>\<open>None\<close>: the same calls and the same result; every options
  dictionary it passes to the engine is empty, so it has no \<^verbatim>\<open>"language"\<close> key. The
  same holds from the command line, for an empty third argument.
\<close>

theorem C10_empty_language:
  "transcribe_audio env audio_path model (Some []) = transcribe_audio env audio_path model None
   \<and> set (transcribe_options (fst (transcribe_audio env audio_path model (Some [])))) \<subseteq> {[]}
   \<and> main env [prog, audio_path, model, []] = main env [prog, audio_path, model]"
proof -
  have eq: "transcribe_audio env audio_path model (Some []) =
            transcribe_audio env audio_path model None"
    unfolding transcribe_audio_def transcribe_audio_try_def
      build_options_cases(1) build_options_cases(2)
    by (rule refl)
  have "set (transcribe_options (fst (transcribe_audio env audio_path model (Some []))))
          \<subseteq> {build_options (Some [])}"
    by (rule transcribe_options_calls)
  then have none: "set (transcribe_options (fst (transcribe_audio env audio_path model (Some []))))
          \<subseteq> {[]}"
    by (simp only: build_options_cases)
  have "main env [prog, audio_path, model, []] = main env [prog, audio_path, model]"
    by (simp add: main_def eq)
  with eq none show ?thesis by simp
qed

theorem C10_empty_language_witness:
  "transcribe_audio env_demo ''a.wav'' ''tiny'' (Some []) =
     ([PathExists ''a.wav'', LoadModel ''tiny'', Transcribe ''a.wav'' []],
      snd (transcribe_audio env_demo ''a.wav'' ''tiny'' None))
   \<and> set (transcribe_options (fst (transcribe_audio env_demo ''a.wav'' ''tiny'' (Some []))))
      = {[]}"
  using C10_empty_language [of env_demo "''a.wav''" "''tiny''" "''whisper_transcribe.py''"]
  by (simp add: demo_success)

end
